theory Spec2Isabelle
  imports Complex_Main
begin

section \<open>Status vocabulary\<close>

text \<open>
  The status codes of \<^verbatim>\<open>DKTools.IO\<close> that the modelled operations return. The source
  only names them (the constants themselves are defined outside the source files), so they
  are an enumeration here.
\<close>

datatype status =
    OK
  | WAIT_FOR_ASYNC_OPERATION
  | ERROR_NOT_LOCAL_MODE
  | ERROR_PATH_DOES_NOT_EXIST
  | ERROR_DIRECTORY_ALREADY_EXISTS
  | ERROR_DIRECTORY_IS_NOT_EMPTY
  | ERROR_CALLBACK_IS_NOT_AVAILABLE
  | ERROR_OPTIONS_IS_NOT_AVAILABLE
  | ERROR_OVERWRITING_IS_NOT_AVAILABLE
  | ERROR_DECOMPRESSING_DATA
  | ERROR_PARSING_DATA

section \<open>The key-value wrapper \<^verbatim>\<open>DKTools.IO.WebStorage\<close>\<close>

text \<open>
  The host's \<^verbatim>\<open>localStorage\<close> is a finite map from keys to strings: \<^verbatim>\<open>getItem\<close> is a
  lookup (\<^verbatim>\<open>null\<close> is \<open>None\<close>), \<^verbatim>\<open>setItem\<close> an update and \<^verbatim>\<open>removeItem\<close> a deletion.
  The store has room for every write: the exception of \<^verbatim>\<open>setItem\<close> on a full store is
  left out.
\<close>

type_synonym localStorage = "string \<rightharpoonup> string"

definition getItem :: "localStorage \<Rightarrow> string \<Rightarrow> string option" where
  "getItem ls key = ls key"

definition setItem :: "string \<Rightarrow> string \<Rightarrow> localStorage \<Rightarrow> localStorage" where
  "setItem key v ls = ls(key \<mapsto> v)"

definition removeItem :: "string \<Rightarrow> localStorage \<Rightarrow> localStorage" where
  "removeItem key ls = ls(key := None)"

text \<open>
  A stored key is an own property of the storage object unless its name is already a
  property on the prototype chain: the members of \<^verbatim>\<open>Storage.prototype\<close> and of
  \<^verbatim>\<open>Object.prototype\<close>. For such a key \<^verbatim>\<open>setItem\<close> and \<^verbatim>\<open>getItem\<close> work, and
  \<^verbatim>\<open>hasOwnProperty\<close> is false.
\<close>

definition prototype_members :: "string list" where
  "prototype_members =
     [''length'', ''key'', ''getItem'', ''setItem'', ''removeItem'', ''clear'',
      ''constructor'', ''hasOwnProperty'', ''isPrototypeOf'', ''propertyIsEnumerable'',
      ''toLocaleString'', ''toString'', ''valueOf'', ''__proto__'',
      ''__defineGetter__'', ''__defineSetter__'', ''__lookupGetter__'', ''__lookupSetter__'']"

definition hasOwnProperty :: "localStorage \<Rightarrow> string \<Rightarrow> bool" where
  "hasOwnProperty ls key = (ls key \<noteq> None \<and> key \<notin> set prototype_members)"

definition WebStorage_exists :: "localStorage \<Rightarrow> string \<Rightarrow> bool" where
  "WebStorage_exists ls key = hasOwnProperty ls key"

text \<open>
  \<^verbatim>\<open>JSON\<close> and \<^verbatim>\<open>LZString\<close> are libraries of the host, not code of the repository:
  they are parameters of the model. A stage either throws or gives a value;
  \<^verbatim>\<open>decompressFromBase64\<close> can give \<^verbatim>\<open>null\<close> (\<open>None\<close>) instead of a string. \<open>toText\<close> is
  the conversion to a string that \<^verbatim>\<open>setItem\<close> applies to a value that was not
  serialized.
\<close>

datatype 'a attempt = Threw | Gave 'a

record 'v libs =
  JSON_stringify :: "'v \<Rightarrow> string"
  JSON_parse :: "string \<Rightarrow> 'v attempt"
  compressToBase64 :: "string \<Rightarrow> string"
  decompressFromBase64 :: "string \<Rightarrow> string option attempt"
  toText :: "'v \<Rightarrow> string"

text \<open>What \<^verbatim>\<open>load\<close> hands back as \<^verbatim>\<open>data\<close>: \<^verbatim>\<open>null\<close>, a stored string, or a parsed value.\<close>

datatype 'v loaded = Null | Text string | Parsed 'v

record 'v load_result =
  loaded_data :: "'v loaded"
  loaded_status :: status

record load_options =
  decompress :: bool
  parse :: bool


text \<open>
  \<^verbatim>\<open>load(key, object)\<close>: the stages run only on a truthy (non-empty) stored string,
  decompress first, parse second; the first stage that throws ends the call. A
  \<^verbatim>\<open>null\<close> from the first stage reaches \<^verbatim>\<open>JSON.parse\<close> as the text \<^verbatim>\<open>null\<close>.
\<close>

definition WebStorage_load ::
  "'v libs \<Rightarrow> string \<Rightarrow> load_options \<Rightarrow> localStorage \<Rightarrow> 'v load_result" where
  "WebStorage_load L key object ls =
     (if \<not> WebStorage_exists ls key
      then \<lparr>loaded_data = Null, loaded_status = ERROR_PATH_DOES_NOT_EXIST\<rparr>
      else
        (case getItem ls key of
           None \<Rightarrow> \<lparr>loaded_data = Null, loaded_status = OK\<rparr>
         | Some d \<Rightarrow>
             if d \<noteq> []
             then
               (case (if decompress object then decompressFromBase64 L d else Gave (Some d)) of
                  Threw \<Rightarrow> \<lparr>loaded_data = Null, loaded_status = ERROR_DECOMPRESSING_DATA\<rparr>
                | Gave d1 \<Rightarrow>
                    if parse object
                    then
                      (case JSON_parse L (case d1 of None \<Rightarrow> ''null'' | Some t \<Rightarrow> t) of
                         Threw \<Rightarrow> \<lparr>loaded_data = Null, loaded_status = ERROR_PARSING_DATA\<rparr>
                       | Gave v \<Rightarrow> \<lparr>loaded_data = Parsed v, loaded_status = OK\<rparr>)
                    else
                      (case d1 of
                         None \<Rightarrow> \<lparr>loaded_data = Null, loaded_status = OK\<rparr>
                       | Some t \<Rightarrow> \<lparr>loaded_data = Text t, loaded_status = OK\<rparr>))
             else \<lparr>loaded_data = Text d, loaded_status = OK\<rparr>))"

definition WebStorage_remove :: "string \<Rightarrow> localStorage \<Rightarrow> status \<times> localStorage" where
  "WebStorage_remove key ls =
     (if \<not> WebStorage_exists ls key then (ERROR_PATH_DOES_NOT_EXIST, ls)
      else (OK, removeItem key ls))"

text \<open>
  \<^verbatim>\<open>rename(oldKey, newKey, overwrite)\<close>: read the old key, write the new key, remove the
  old key, in this order. \<^verbatim>\<open>setItem\<close> turns a \<^verbatim>\<open>null\<close> into the string \<^verbatim>\<open>"null"\<close>.
\<close>

definition WebStorage_rename ::
  "string \<Rightarrow> string \<Rightarrow> bool \<Rightarrow> localStorage \<Rightarrow> status \<times> localStorage" where
  "WebStorage_rename oldKey newKey overwr ls =
     (if \<not> WebStorage_exists ls oldKey then (ERROR_PATH_DOES_NOT_EXIST, ls)
      else if \<not> overwr \<and> WebStorage_exists ls newKey
      then (ERROR_OVERWRITING_IS_NOT_AVAILABLE, ls)
      else
        (let d = (case getItem ls oldKey of None \<Rightarrow> ''null'' | Some s \<Rightarrow> s);
             ls1 = setItem newKey d ls;
             ls2 = removeItem oldKey ls1
         in (OK, ls2)))"


section \<open>The host file system\<close>

text \<open>
  Modelled from the spec: \<^verbatim>\<open>DKTools.IO.normalizePath\<close> is not part of the source files; the
  specification makes it collapse redundant separators, idempotently. A path is the
  list of its segments, so that the normal form of \<^verbatim>\<open>path + '/' + name\<close> is the parent's
  list with the name appended. The host file system maps a path to what is there: a
  regular file, a directory with the names \<^verbatim>\<open>readdir\<close> lists, or a directory whose
  listing the host refuses. A listed name with nothing behind it (or something that is neither file nor
  directory) is a name whose path maps to \<open>None\<close>.
\<close>

type_synonym path = "string list"

datatype fsnode = FileN | DirN "string list" | LockedDirN

type_synonym filesystem = "path \<Rightarrow> fsnode option"

datatype errno = ENOENT | ENOTDIR | EACCES | EEXIST | ENOTEMPTY

datatype exn = HostError errno | TypeError

text \<open>What a call returns: a value, or an exception that leaves the function.\<close>

datatype 'a outcome = Return 'a | Throw exn

text \<open>The calls to the host's \<^verbatim>\<open>fs\<close> module that the model logs, in order.\<close>

datatype hostcall =
    ExistsSync path
  | ReaddirSync path
  | Readdir path
  | MkdirSync path
  | Mkdir path
  | RmdirSync path
  | Rmdir path

definition host_readdir :: "filesystem \<Rightarrow> path \<Rightarrow> errno + string list" where
  "host_readdir f p =
     (case f p of
        None \<Rightarrow> Inl ENOENT
      | Some FileN \<Rightarrow> Inl ENOTDIR
      | Some LockedDirN \<Rightarrow> Inl EACCES
      | Some (DirN names) \<Rightarrow> Inr names)"

text \<open>
  \<^verbatim>\<open>mkdir\<close> makes an empty directory and lists it in its parent; \<^verbatim>\<open>rmdir\<close> removes an
  empty directory and its name from the parent.
\<close>

definition host_mkdir :: "filesystem \<Rightarrow> path \<Rightarrow> errno + filesystem" where
  "host_mkdir f p =
     (if f p \<noteq> None then Inl EEXIST
      else if p = [] then Inl ENOENT
      else
        (case f (butlast p) of
           Some (DirN names) \<Rightarrow>
             Inr (f(p \<mapsto> DirN [], butlast p \<mapsto> DirN (names @ [last p])))
         | Some LockedDirN \<Rightarrow> Inl EACCES
         | Some FileN \<Rightarrow> Inl ENOTDIR
         | None \<Rightarrow> Inl ENOENT))"

definition host_rmdir :: "filesystem \<Rightarrow> path \<Rightarrow> errno + filesystem" where
  "host_rmdir f p =
     (case f p of
        None \<Rightarrow> Inl ENOENT
      | Some FileN \<Rightarrow> Inl ENOTDIR
      | Some LockedDirN \<Rightarrow> Inl EACCES
      | Some (DirN names) \<Rightarrow>
          if names \<noteq> [] then Inl ENOTEMPTY
          else
            Inr (case f (butlast p) of
                   Some (DirN siblings) \<Rightarrow>
                     f(p := None, butlast p \<mapsto> DirN (removeAll (last p) siblings))
                 | _ \<Rightarrow> f(p := None)))"

section \<open>Entities, templates, options and results\<close>

datatype entity = File path | Directory path

fun getFullPath :: "entity \<Rightarrow> path" where
  "getFullPath (File p) = p"
| "getFullPath (Directory p) = p"

definition getFullName :: "entity \<Rightarrow> string" where
  "getFullName e = (if getFullPath e = [] then [] else last (getFullPath e))"

text \<open>
  Modelled from the spec: \<^verbatim>\<open>DKTools.IO.isFile\<close>, \<^verbatim>\<open>DKTools.IO.isDirectory\<close> and the
  methods \<^verbatim>\<open>isFile\<close>, \<^verbatim>\<open>isDirectory\<close> and \<^verbatim>\<open>exists\<close> of \<^verbatim>\<open>DKTools.IO.Entity\<close> are not part
  of the source files. The specification makes the two classification queries mutually
  exclusive and based on a host stat call, and \<^verbatim>\<open>exists\<close> one host existence check.
\<close>

definition IO_isFile :: "filesystem \<Rightarrow> path \<Rightarrow> bool" where
  "IO_isFile f p = (f p = Some FileN)"

definition IO_isDirectory :: "filesystem \<Rightarrow> path \<Rightarrow> bool" where
  "IO_isDirectory f p =
     (case f p of Some (DirN names) \<Rightarrow> True | Some LockedDirN \<Rightarrow> True | _ \<Rightarrow> False)"

definition isFile :: "filesystem \<Rightarrow> entity \<Rightarrow> bool" where
  "isFile f e = IO_isFile f (getFullPath e)"

definition isDirectory :: "filesystem \<Rightarrow> entity \<Rightarrow> bool" where
  "isDirectory f e = IO_isDirectory f (getFullPath e)"

text \<open>
  A template as JavaScript sees it: absent, a \<^verbatim>\<open>RegExp\<close>, a string, or any other value,
  of which only the truthiness matters (\<open>Other True\<close> is a number such as 42 or an
  object, \<open>Other False\<close> is \<^verbatim>\<open>null\<close>, 0 or \<^verbatim>\<open>false\<close>). A \<^verbatim>\<open>RegExp\<close> is its matcher and
  whether it carries the \<^verbatim>\<open>g\<close> or the \<^verbatim>\<open>y\<close> flag: \<open>exec i name\<close> looks for a match in
  \<open>name\<close> from index \<open>i\<close> on (with the \<^verbatim>\<open>y\<close> flag: for a match that begins at \<open>i\<close>) and
  gives the index where the match ends.
\<close>

datatype template =
    Undefined
  | RegExp "nat \<Rightarrow> string \<Rightarrow> nat option" bool
  | Str string
  | Other bool

fun truthy :: "template \<Rightarrow> bool" where
  "truthy Undefined = False"
| "truthy (RegExp exec flagged) = True"
| "truthy (Str s) = (s \<noteq> [])"
| "truthy (Other b) = b"

text \<open>
  \<^verbatim>\<open>RegExp.prototype.test\<close>. Without the two flags the search starts at 0 and
  \<^verbatim>\<open>lastIndex\<close> is left alone. With one of them the search starts at \<^verbatim>\<open>lastIndex\<close>: a
  match moves \<^verbatim>\<open>lastIndex\<close> to its end, a failure (also a \<^verbatim>\<open>lastIndex\<close> beyond the
  name) resets it to 0. The second argument and result is the \<^verbatim>\<open>lastIndex\<close> of the
  object.
\<close>

definition RegExp_test ::
  "(nat \<Rightarrow> string \<Rightarrow> nat option) \<Rightarrow> bool \<Rightarrow> string \<Rightarrow> nat \<Rightarrow> bool \<times> nat" where
  "RegExp_test exec flagged name li =
     (if \<not> flagged then (exec 0 name \<noteq> None, li)
      else if length name < li then (False, 0)
      else (case exec li name of None \<Rightarrow> (False, 0) | Some e \<Rightarrow> (True, e)))"

text \<open>\<^verbatim>\<open>_.filter(names, name => template.test(name))\<close>: the tests run in order on one object.\<close>

fun filter_test ::
  "(nat \<Rightarrow> string \<Rightarrow> nat option) \<Rightarrow> bool \<Rightarrow> string list \<Rightarrow> nat \<Rightarrow> string list \<times> nat" where
  "filter_test exec flagged [] li = ([], li)"
| "filter_test exec flagged (name # names) li =
     (case RegExp_test exec flagged name li of
        (tested, li1) \<Rightarrow>
          (case filter_test exec flagged names li1 of
             (kept, li2) \<Rightarrow> (if tested then name # kept else kept, li2)))"

text \<open>
  The success callbacks that reach \<^verbatim>\<open>getAll\<close>: the caller's own function, the wrappers
  that \<^verbatim>\<open>getFiles\<close> and \<^verbatim>\<open>getDirectories\<close> put around a callback, and the two
  closures that \<^verbatim>\<open>findFiles\<close> and \<^verbatim>\<open>findDirectories\<close> pass for every directory.
\<close>

datatype callback =
    User
  | FilesOf callback
  | DirectoriesOf callback
  | FindFilesStep
  | FindDirectoriesStep

text \<open>
  The options object. \<^verbatim>\<open>onSuccess\<close> is \<open>None\<close> when it is not a function.
  \<^verbatim>\<open>searchLimit\<close> is a finite number, whole or not, positive or not; it is \<open>None\<close> when
  it is left out or \<^verbatim>\<open>NaN\<close>, which \<^verbatim>\<open>||\<close> reads alike. The two infinities are left out:
  with \<^verbatim>\<open>Infinity\<close> nothing bounds the walk but the directory tree itself.
  (\<^verbatim>\<open>object.options\<close> goes to the host unread and \<^verbatim>\<open>onError\<close> only to the error handler;
  neither is modelled.)
\<close>

record options =
  sync :: bool
  template :: template
  onSuccess :: "callback option"
  searchLimit :: "real option"

record result =
  data :: "entity list option"
  status :: status

definition failure :: "status \<Rightarrow> result" where
  "failure st = \<lparr>data = None, status = st\<rparr>"

text \<open>\<^verbatim>\<open>_.forEach\<close> and \<^verbatim>\<open>_.filter\<close> read \<^verbatim>\<open>null\<close> as the empty collection.\<close>

definition entities :: "result \<Rightarrow> entity list" where
  "entities r = (case data r of None \<Rightarrow> [] | Some es \<Rightarrow> es)"

text \<open>
  An asynchronous \<^verbatim>\<open>fs.readdir\<close> that the host has not finished yet: the directory, the
  options object its callback closes over, and the success callback.
\<close>

record request =
  req_path :: path
  req_object :: options
  req_onSuccess :: callback

text \<open>What the caller sees later: its success callback or its error channel is invoked.\<close>

datatype event = Success result | Failure errno

text \<open>
  The state around a call: the file system, the trust gate (the answer of
  \<^verbatim>\<open>DKTools.IO.isLocalMode()\<close>, which is not part of the source files and is taken as a
  parameter), the log of host calls, the requests in flight, the callbacks invoked so
  far, and the \<^verbatim>\<open>lastIndex\<close> of the \<^verbatim>\<open>RegExp\<close> that the caller passed as the template.
\<close>

record host =
  fs :: filesystem
  localMode :: bool
  calls :: "hostcall list"
  pending :: "request list"
  events :: "event list"
  lastIndex :: nat

definition Entity_exists :: "path \<Rightarrow> 'a host_scheme \<Rightarrow> bool \<times> 'a host_scheme" where
  "Entity_exists this h = (fs h this \<noteq> None, h\<lparr>calls := calls h @ [ExistsSync this]\<rparr>)"

section \<open>\<^verbatim>\<open>DKTools.IO.Directory\<close>: enumeration\<close>

text \<open>
  \<^verbatim>\<open>processData\<close> inside \<^verbatim>\<open>getAll\<close>: filter the names by a \<^verbatim>\<open>RegExp\<close> or a string
  template, then wrap each name that is a file or a directory.
\<close>

definition getAll_processData ::
  "filesystem \<Rightarrow> path \<Rightarrow> options \<Rightarrow> string list \<Rightarrow> nat \<Rightarrow> result \<times> nat" where
  "getAll_processData f path object names li =
     (case (case template object of
              RegExp exec flagged \<Rightarrow> filter_test exec flagged names li
            | Str s \<Rightarrow> (filter (\<lambda>name. name = s) names, li)
            | _ \<Rightarrow> (names, li)) of
        (names1, li1) \<Rightarrow>
          (let dat =
                 foldl
                   (\<lambda>acc name.
                      let fullPath = path @ [name]
                      in if IO_isFile f fullPath then acc @ [File fullPath]
                         else if IO_isDirectory f fullPath then acc @ [Directory fullPath]
                         else acc)
                   [] names1
           in (\<lparr>data = Some dat, status = OK\<rparr>, li1)))"

text \<open>
  \<^verbatim>\<open>getAll(object)\<close>. The checks come in the order of the source: options object, trust
  gate, existence; the callback is looked at only in the asynchronous branch, after the
  existence check. The asynchronous branch issues \<^verbatim>\<open>fs.readdir\<close> and returns at once.
\<close>

definition getAll ::
  "path \<Rightarrow> options option \<Rightarrow> 'a host_scheme \<Rightarrow> result outcome \<times> 'a host_scheme" where
  "getAll this object h =
     (case object of
        None \<Rightarrow> (Return (failure ERROR_OPTIONS_IS_NOT_AVAILABLE), h)
      | Some obj \<Rightarrow>
          if \<not> localMode h then (Return (failure ERROR_NOT_LOCAL_MODE), h)
          else
            (case Entity_exists this h of
               (ex, h1) \<Rightarrow>
                 if \<not> ex then (Return (failure ERROR_PATH_DOES_NOT_EXIST), h1)
                 else if sync obj
                 then
                   (let h2 = h1\<lparr>calls := calls h1 @ [ReaddirSync this]\<rparr>
                    in case host_readdir (fs h2) this of
                         Inl e \<Rightarrow> (Throw (HostError e), h2)
                       | Inr names \<Rightarrow>
                           (case getAll_processData (fs h2) this obj names (lastIndex h2) of
                              (res, li) \<Rightarrow> (Return res, h2\<lparr>lastIndex := li\<rparr>)))
                 else
                   (case onSuccess obj of
                      None \<Rightarrow> (Return (failure ERROR_CALLBACK_IS_NOT_AVAILABLE), h1)
                    | Some cb \<Rightarrow>
                        (Return (failure WAIT_FOR_ASYNC_OPERATION),
                         h1\<lparr>calls := calls h1 @ [Readdir this],
                            pending := pending h1 @
                              [\<lparr>req_path = this, req_object = obj, req_onSuccess = cb\<rparr>]\<rparr>))))"

text \<open>The empty options object \<^verbatim>\<open>{}\<close>.\<close>

definition no_options :: options where
  "no_options = \<lparr>sync = False, template = Undefined, onSuccess = None, searchLimit = None\<rparr>"

text \<open>
  \<^verbatim>\<open>getFiles(object)\<close> starts with \<^verbatim>\<open>object = object || {}\<close>; in the asynchronous mode it
  looks for the callback first and wraps it.
\<close>

definition getFiles ::
  "path \<Rightarrow> options option \<Rightarrow> 'a host_scheme \<Rightarrow> result outcome \<times> 'a host_scheme" where
  "getFiles this object h =
     (let obj = (case object of None \<Rightarrow> no_options | Some ob \<Rightarrow> ob)
      in if sync obj
         then
           (case getAll this (Some obj) h of
              (Return r, h1) \<Rightarrow>
                (if status r = OK
                 then Return (r\<lparr>data := Some (filter (isFile (fs h1)) (entities r))\<rparr>)
                 else Return r, h1)
            | (Throw e, h1) \<Rightarrow> (Throw e, h1))
         else
           (case onSuccess obj of
              None \<Rightarrow> (Return (failure ERROR_CALLBACK_IS_NOT_AVAILABLE), h)
            | Some cb \<Rightarrow> getAll this (Some (obj\<lparr>onSuccess := Some (FilesOf cb)\<rparr>)) h))"

text \<open>
  \<^verbatim>\<open>getDirectories(object)\<close> reads \<^verbatim>\<open>object.sync\<close> at once: without an options object
  this is a \<^verbatim>\<open>TypeError\<close>.
\<close>

definition getDirectories ::
  "path \<Rightarrow> options option \<Rightarrow> 'a host_scheme \<Rightarrow> result outcome \<times> 'a host_scheme" where
  "getDirectories this object h =
     (case object of
        None \<Rightarrow> (Throw TypeError, h)
      | Some obj \<Rightarrow>
          if sync obj
          then
            (case getAll this (Some obj) h of
               (Return r, h1) \<Rightarrow>
                 (if status r = OK
                  then Return (r\<lparr>data := Some (filter (isDirectory (fs h1)) (entities r))\<rparr>)
                  else Return r, h1)
             | (Throw e, h1) \<Rightarrow> (Throw e, h1))
          else
            (case onSuccess obj of
               None \<Rightarrow> (Return (failure ERROR_CALLBACK_IS_NOT_AVAILABLE), h)
             | Some cb \<Rightarrow> getAll this (Some (obj\<lparr>onSuccess := Some (DirectoriesOf cb)\<rparr>)) h))"

section \<open>\<^verbatim>\<open>DKTools.IO.Directory\<close>: bounded recursive search\<close>

text \<open>
  The variables that the closures of one \<^verbatim>\<open>findFiles\<close> or \<^verbatim>\<open>findDirectories\<close> call
  share: \<^verbatim>\<open>total\<close>, \<^verbatim>\<open>processed\<close> and the array of collected entities. \<open>history\<close> is not
  in the source: it records the pair \<open>(total, processed)\<close> after every assignment to one
  of the two, so that a property of the counters at every point in time can be stated.
\<close>

record search = host +
  total :: int
  processed :: int
  found :: "entity list"
  history :: "(int \<times> int) list"

text \<open>\<^verbatim>\<open>const searchLimit = object.searchLimit || 1\<close>: a missing limit and 0 both give 1.\<close>

definition limit :: "options \<Rightarrow> real" where
  "limit object = (case searchLimit object of None \<Rightarrow> 1 | Some n \<Rightarrow> if n = 0 then 1 else n)"

text \<open>
  The test of \<^verbatim>\<open>processData\<close> in both searches:
  \<^verbatim>\<open>template instanceof RegExp && template.test(fullName)\<close>, else
  \<^verbatim>\<open>!template || fullName === template\<close>.
\<close>

definition find_matches :: "template \<Rightarrow> string \<Rightarrow> nat \<Rightarrow> bool \<times> nat" where
  "find_matches t fullName li =
     (case (case t of
              RegExp exec flagged \<Rightarrow> RegExp_test exec flagged fullName li
            | _ \<Rightarrow> (False, li)) of
        (tested, li1) \<Rightarrow>
          if tested then (True, li1)
          else if \<not> truthy t then (True, li1)
          else (case t of Str s \<Rightarrow> fullName = s | _ \<Rightarrow> False, li1))"

definition push :: "options \<Rightarrow> entity \<Rightarrow> search \<Rightarrow> search" where
  "push object e s =
     (case find_matches (template object) (getFullName e) (lastIndex s) of
        (matched, li) \<Rightarrow>
          if matched then s\<lparr>lastIndex := li, found := found s @ [e]\<rparr>
          else s\<lparr>lastIndex := li\<rparr>)"

definition incr_total :: "search \<Rightarrow> search" where
  "incr_total s = s\<lparr>total := total s + 1, history := history s @ [(total s + 1, processed s)]\<rparr>"

definition incr_processed :: "search \<Rightarrow> search" where
  "incr_processed s =
     s\<lparr>processed := processed s + 1, history := history s @ [(total s, processed s + 1)]\<rparr>"

lemma getAll_total [simp]: "total (snd (getAll p ob (s::search))) = total s"
  by (auto simp: getAll_def Entity_exists_def Let_def split: option.splits sum.splits prod.splits)

lemma getAll_total_eq: "getAll p ob (s::search) = (r, s') \<Longrightarrow> total s' = total s"
  using getAll_total [of p ob s] by simp

lemma getDirectories_total [simp]: "total (snd (getDirectories p ob (s::search))) = total s"
  by (auto simp: getDirectories_def split: prod.splits outcome.splits option.splits
      dest: getAll_total_eq)

lemma push_total [simp]: "total (push ob e s) = total s"
  by (simp add: push_def split: prod.splits)

lemma incr_total_total [simp]: "total (incr_total s) = total s + 1"
  by (simp add: incr_total_def)

text \<open>
  \<^verbatim>\<open>processData\<close> and \<^verbatim>\<open>processDirectory\<close> of \<^verbatim>\<open>findFiles\<close>. The walk over the entities
  is the \<^verbatim>\<open>_.forEach\<close>; an exception of the blocking read leaves every loop at once. In
  the synchronous mode \<^verbatim>\<open>processDirectory\<close> reads the directory and recurses, and
  \<^verbatim>\<open>processed\<close> is never touched; in the asynchronous mode it only issues the read, with
  the closure \<open>FindFilesStep\<close> as the callback. \<^verbatim>\<open>getAll\<close> is given a fresh object
  without the template.
\<close>

function findFiles_processData :: "options \<Rightarrow> entity list \<Rightarrow> search \<Rightarrow> exn option \<times> search"
  and findFiles_processDirectory :: "options \<Rightarrow> path \<Rightarrow> search \<Rightarrow> exn option \<times> search"
where
  "findFiles_processData object [] s = (None, s)"
| "findFiles_processData object (e # rest) s =
     (if isFile (fs s) e then findFiles_processData object rest (push object e s)
      else if of_int (total s) < limit object \<and> isDirectory (fs s) e
      then
        (let r = findFiles_processDirectory object (getFullPath e) (incr_total s)
         in if fst r = None then findFiles_processData object rest (snd r) else r)
      else findFiles_processData object rest s)"
| "findFiles_processDirectory object directory s =
     (if sync object
      then
        (let r = getAll directory (Some (no_options\<lparr>sync := True\<rparr>)) s
         in case fst r of
              Throw x \<Rightarrow> (Some x, snd r)
            | Return res \<Rightarrow> findFiles_processData object (entities res) (snd r))
      else
        (None, snd (getAll directory
                     (Some (no_options\<lparr>sync := False, onSuccess := Some FindFilesStep\<rparr>)) s)))"
  by pat_completeness auto

text \<open>
  Termination: every descent raises \<^verbatim>\<open>total\<close>, a whole number, while it is below the
  limit, \<^verbatim>\<open>total\<close> never falls, and each list of entities is finite.
\<close>

lemma findFiles_total_mono_dom:
  "findFiles_processData_findFiles_processDirectory_dom (Inl (ob, es, s)) \<Longrightarrow>
     total s \<le> total (snd (findFiles_processData ob es s))"
  "findFiles_processData_findFiles_processDirectory_dom (Inr (ob, d, s)) \<Longrightarrow>
     total s \<le> total (snd (findFiles_processDirectory ob d s))"
proof (induction ob es s and ob d s rule: findFiles_processData_findFiles_processDirectory.pinduct)
  case (1 object s)
  then show ?case by (simp add: findFiles_processData.psimps)
next
  case (2 object e rest s)
  show ?case
    apply (subst findFiles_processData.psimps(2)[OF 2(1)])
    using 2(2-)
    apply (auto simp: Let_def split: if_splits)
    apply (metis prod.collapse order_trans le_add_same_cancel1 zero_le_one add.commute)
    done
next
  case (3 object directory s)
  show ?case
    apply (subst findFiles_processDirectory.psimps[OF 3(1)])
    using 3(2-)
    apply (auto simp: Let_def split: if_splits outcome.splits)
    done
qed

termination findFiles_processData
  apply (relation "measures [
     (\<lambda>x. case x of Inl (ob, es, s) \<Rightarrow> nat (\<lceil>limit ob\<rceil> - total s)
                   | Inr (ob, d, s) \<Rightarrow> nat (\<lceil>limit ob\<rceil> - total s)),
     (\<lambda>x. case x of Inl _ \<Rightarrow> 0 | Inr _ \<Rightarrow> 1),
     (\<lambda>x. case x of Inl (ob, es, s) \<Rightarrow> length es | Inr _ \<Rightarrow> 0)]")
       apply (simp_all add: less_ceiling_iff)
  subgoal for object e s x
    using findFiles_total_mono_dom(2)[of object "getFullPath e" "incr_total s"] by simp
  done

text \<open>
  The same pair for \<^verbatim>\<open>findDirectories\<close>: every entity is tested against the template,
  and, whatever the test said, descended into while \<^verbatim>\<open>total\<close> is below the limit. The
  directories are read with \<^verbatim>\<open>getDirectories\<close>.
\<close>

function findDirectories_processData ::
    "options \<Rightarrow> entity list \<Rightarrow> search \<Rightarrow> exn option \<times> search"
  and findDirectories_processDirectory ::
    "options \<Rightarrow> path \<Rightarrow> search \<Rightarrow> exn option \<times> search"
where
  "findDirectories_processData object [] s = (None, s)"
| "findDirectories_processData object (e # rest) s =
     (let s1 = push object e s
      in if of_int (total s1) < limit object
         then
           (let r = findDirectories_processDirectory object (getFullPath e) (incr_total s1)
            in if fst r = None then findDirectories_processData object rest (snd r) else r)
         else findDirectories_processData object rest s1)"
| "findDirectories_processDirectory object directory s =
     (if sync object
      then
        (let r = getDirectories directory (Some (no_options\<lparr>sync := True\<rparr>)) s
         in case fst r of
              Throw x \<Rightarrow> (Some x, snd r)
            | Return res \<Rightarrow> findDirectories_processData object (entities res) (snd r))
      else
        (None, snd (getDirectories directory
                     (Some (no_options\<lparr>sync := False, onSuccess := Some FindDirectoriesStep\<rparr>)) s)))"
  by pat_completeness auto

lemma findDirectories_total_mono_dom:
  "findDirectories_processData_findDirectories_processDirectory_dom (Inl (ob, es, s)) \<Longrightarrow>
     total s \<le> total (snd (findDirectories_processData ob es s))"
  "findDirectories_processData_findDirectories_processDirectory_dom (Inr (ob, d, s)) \<Longrightarrow>
     total s \<le> total (snd (findDirectories_processDirectory ob d s))"
proof (induction ob es s and ob d s
    rule: findDirectories_processData_findDirectories_processDirectory.pinduct)
  case (1 object s)
  then show ?case by (simp add: findDirectories_processData.psimps)
next
  case (2 object e rest s)
  show ?case
    apply (subst findDirectories_processData.psimps(2)[OF 2(1)])
    using 2(2-)
    apply (auto simp: Let_def split: if_splits)
    apply (metis prod.collapse order_trans le_add_same_cancel1 zero_le_one add.commute)
    done
next
  case (3 object directory s)
  show ?case
    apply (subst findDirectories_processDirectory.psimps[OF 3(1)])
    using 3(2-)
    apply (auto simp: Let_def split: if_splits outcome.splits)
    done
qed

termination findDirectories_processData
  apply (relation "measures [
     (\<lambda>x. case x of Inl (ob, es, s) \<Rightarrow> nat (\<lceil>limit ob\<rceil> - total s)
                   | Inr (ob, d, s) \<Rightarrow> nat (\<lceil>limit ob\<rceil> - total s)),
     (\<lambda>x. case x of Inl _ \<Rightarrow> 0 | Inr _ \<Rightarrow> 1),
     (\<lambda>x. case x of Inl (ob, es, s) \<Rightarrow> length es | Inr _ \<Rightarrow> 0)]")
       apply (simp_all add: less_ceiling_iff)
  subgoal for object e s x
    using findDirectories_total_mono_dom(2)[of object "getFullPath e" "incr_total (push object e s)"]
    by simp
  done

text \<open>
  \<^verbatim>\<open>findFiles(object)\<close>: the four checks, then the closure's variables, then the walk from
  \<^verbatim>\<open>this\<close>. The variables are created by the call: what the state held in them before
  is overwritten. The blocking mode returns what was collected; the other mode returns
  the pending sentinel. \<^verbatim>\<open>findDirectories\<close> is written the same way.
\<close>

definition start_search :: "search \<Rightarrow> search" where
  "start_search s = s\<lparr>total := 1, processed := 0, found := [], history := [(1, 0)]\<rparr>"

definition findFiles :: "path \<Rightarrow> options option \<Rightarrow> search \<Rightarrow> result outcome \<times> search" where
  "findFiles this object s =
     (case object of
        None \<Rightarrow> (Return (failure ERROR_OPTIONS_IS_NOT_AVAILABLE), s)
      | Some obj \<Rightarrow>
          if \<not> localMode s then (Return (failure ERROR_NOT_LOCAL_MODE), s)
          else if \<not> sync obj \<and> onSuccess obj = None
          then (Return (failure ERROR_CALLBACK_IS_NOT_AVAILABLE), s)
          else
            (case Entity_exists this s of
               (ex, s1) \<Rightarrow>
                 if \<not> ex then (Return (failure ERROR_PATH_DOES_NOT_EXIST), s1)
                 else
                   (let r = findFiles_processDirectory obj this (start_search s1)
                    in case fst r of
                         Some x \<Rightarrow> (Throw x, snd r)
                       | None \<Rightarrow>
                           if sync obj
                           then (Return \<lparr>data = Some (found (snd r)), status = OK\<rparr>, snd r)
                           else (Return (failure WAIT_FOR_ASYNC_OPERATION), snd r))))"

definition findDirectories ::
  "path \<Rightarrow> options option \<Rightarrow> search \<Rightarrow> result outcome \<times> search" where
  "findDirectories this object s =
     (case object of
        None \<Rightarrow> (Return (failure ERROR_OPTIONS_IS_NOT_AVAILABLE), s)
      | Some obj \<Rightarrow>
          if \<not> localMode s then (Return (failure ERROR_NOT_LOCAL_MODE), s)
          else if \<not> sync obj \<and> onSuccess obj = None
          then (Return (failure ERROR_CALLBACK_IS_NOT_AVAILABLE), s)
          else
            (case Entity_exists this s of
               (ex, s1) \<Rightarrow>
                 if \<not> ex then (Return (failure ERROR_PATH_DOES_NOT_EXIST), s1)
                 else
                   (let r = findDirectories_processDirectory obj this (start_search s1)
                    in case fst r of
                         Some x \<Rightarrow> (Throw x, snd r)
                       | None \<Rightarrow>
                           if sync obj
                           then (Return \<lparr>data = Some (found (snd r)), status = OK\<rparr>, snd r)
                           else (Return (failure WAIT_FOR_ASYNC_OPERATION), snd r))))"

text \<open>
  The closure that \<^verbatim>\<open>findFiles\<close> passes as \<^verbatim>\<open>onSuccess\<close> for every directory:
  \<^verbatim>\<open>processed++\<close>, walk the entities, and call the caller's \<^verbatim>\<open>onSuccess\<close> when
  \<^verbatim>\<open>total === processed\<close>. An exception in the walk leaves the closure before the test.
\<close>

definition findFiles_onSuccess :: "options \<Rightarrow> result \<Rightarrow> search \<Rightarrow> search" where
  "findFiles_onSuccess object res s =
     (let r = findFiles_processData object (entities res) (incr_processed s)
      in case fst r of
           Some x \<Rightarrow> snd r
         | None \<Rightarrow>
             if total (snd r) = processed (snd r)
             then (snd r)\<lparr>events := events (snd r) @
                     [Success \<lparr>data = Some (found (snd r)), status = OK\<rparr>]\<rparr>
             else snd r)"

definition findDirectories_onSuccess :: "options \<Rightarrow> result \<Rightarrow> search \<Rightarrow> search" where
  "findDirectories_onSuccess object res s =
     (let r = findDirectories_processData object (entities res) (incr_processed s)
      in case fst r of
           Some x \<Rightarrow> snd r
         | None \<Rightarrow>
             if total (snd r) = processed (snd r)
             then (snd r)\<lparr>events := events (snd r) @
                     [Success \<lparr>data = Some (found (snd r)), status = OK\<rparr>]\<rparr>
             else snd r)"

section \<open>The host finishes a read\<close>

text \<open>
  Calling a success callback with a result. The caller's own function is an event; the
  wrappers of \<^verbatim>\<open>getFiles\<close> and \<^verbatim>\<open>getDirectories\<close> filter the data by kind and pass it
  on; the closures of the searches are the definitions above. The first argument is
  the options object of the search in progress.
\<close>

fun invoke :: "options \<Rightarrow> callback \<Rightarrow> result \<Rightarrow> search \<Rightarrow> search" where
  "invoke fo User r s = s\<lparr>events := events s @ [Success r]\<rparr>"
| "invoke fo (FilesOf cb) r s =
     invoke fo cb (r\<lparr>data := Some (filter (isFile (fs s)) (entities r))\<rparr>) s"
| "invoke fo (DirectoriesOf cb) r s =
     invoke fo cb (r\<lparr>data := Some (filter (isDirectory (fs s)) (entities r))\<rparr>) s"
| "invoke fo FindFilesStep r s = findFiles_onSuccess fo r s"
| "invoke fo FindDirectoriesStep r s = findDirectories_onSuccess fo r s"

text \<open>
  Modelled from the spec: \<^verbatim>\<open>__processError\<close> is not part of the source files; the
  specification surfaces a host error through the caller's failure channel, recorded
  here as the event \<open>Failure\<close>. The definition is the callback that \<^verbatim>\<open>getAll\<close> hands to
  \<^verbatim>\<open>fs.readdir\<close>: an error goes to the error handler, names go through \<^verbatim>\<open>processData\<close>
  to \<^verbatim>\<open>onSuccess\<close>.
\<close>

definition complete :: "options \<Rightarrow> request \<Rightarrow> search \<Rightarrow> search" where
  "complete fo req s =
     (case host_readdir (fs s) (req_path req) of
        Inl e \<Rightarrow> s\<lparr>events := events s @ [Failure e]\<rparr>
      | Inr names \<Rightarrow>
          (case getAll_processData (fs s) (req_path req) (req_object req) names (lastIndex s) of
             (res, li) \<Rightarrow> invoke fo (req_onSuccess req) res (s\<lparr>lastIndex := li\<rparr>)))"

text \<open>
  One step of the event loop: the host finishes any one of the reads in flight, in no
  particular order, and its callback runs to the end.
\<close>

inductive step :: "options \<Rightarrow> search \<Rightarrow> search \<Rightarrow> bool" for fo :: options where
  finish: "pending s = before @ req # after \<Longrightarrow>
           step fo s (complete fo req (s\<lparr>pending := before @ after\<rparr>))"



section \<open>\<^verbatim>\<open>DKTools.IO.Directory\<close>: creating and removing\<close>

definition create :: "path \<Rightarrow> 'a host_scheme \<Rightarrow> status outcome \<times> 'a host_scheme" where
  "create this h =
     (if \<not> localMode h then (Return ERROR_NOT_LOCAL_MODE, h)
      else
        (case Entity_exists this h of
           (ex, h1) \<Rightarrow>
             if ex then (Return ERROR_DIRECTORY_ALREADY_EXISTS, h1)
             else
               (let h2 = h1\<lparr>calls := calls h1 @ [MkdirSync this]\<rparr>
                in case host_mkdir (fs h2) this of
                     Inl e \<Rightarrow> (Throw (HostError e), h2)
                   | Inr f \<Rightarrow> (Return OK, h2\<lparr>fs := f\<rparr>))))"

text \<open>
  A promise settles once: later calls of \<^verbatim>\<open>resolve\<close> or \<^verbatim>\<open>reject\<close> change nothing.
\<close>

datatype 'a promise = Resolved 'a | Rejected exn

definition settle :: "'a promise \<Rightarrow> 'a promise option \<Rightarrow> 'a promise option" where
  "settle v p = (case p of None \<Rightarrow> Some v | Some w \<Rightarrow> Some w)"

definition settled :: "'a promise \<Rightarrow> 'a promise option \<Rightarrow> 'a promise" where
  "settled v p = (case p of None \<Rightarrow> v | Some w \<Rightarrow> w)"

text \<open>
  \<^verbatim>\<open>createAsync()\<close>: the executor of the promise. Neither \<^verbatim>\<open>resolve\<close> is followed by
  a \<^verbatim>\<open>return\<close>, so the executor goes on to \<^verbatim>\<open>fs.mkdir\<close> in every case. The host's work
  and the callback of \<^verbatim>\<open>fs.mkdir\<close> are taken as one step, since nothing else runs in
  between.
\<close>

definition createAsync :: "path \<Rightarrow> 'a host_scheme \<Rightarrow> status promise \<times> 'a host_scheme" where
  "createAsync this h =
     (let p0 = (if \<not> localMode h then settle (Resolved ERROR_NOT_LOCAL_MODE) None else None)
      in case Entity_exists this h of
           (ex, h1) \<Rightarrow>
             (let p1 = (if ex then settle (Resolved ERROR_DIRECTORY_ALREADY_EXISTS) p0 else p0);
                  h2 = h1\<lparr>calls := calls h1 @ [Mkdir this]\<rparr>
              in case host_mkdir (fs h2) this of
                   Inl e \<Rightarrow> (settled (Rejected (HostError e)) p1, h2)
                 | Inr f \<Rightarrow> (settled (Resolved OK) p1, h2\<lparr>fs := f\<rparr>)))"

text \<open>\<^verbatim>\<open>isEmpty()\<close>: \<^verbatim>\<open>!data || data.length === 0\<close> on a blocking \<^verbatim>\<open>getAll\<close>.\<close>

definition isEmpty :: "path \<Rightarrow> 'a host_scheme \<Rightarrow> bool outcome \<times> 'a host_scheme" where
  "isEmpty this h =
     (case getAll this (Some (no_options\<lparr>sync := True\<rparr>)) h of
        (Throw x, h1) \<Rightarrow> (Throw x, h1)
      | (Return r, h1) \<Rightarrow> (Return (case data r of None \<Rightarrow> True | Some es \<Rightarrow> es = []), h1))"

text \<open>
  \<^verbatim>\<open>remove(object)\<close>. In the asynchronous mode the host's work and the callback of
  \<^verbatim>\<open>fs.rmdir\<close> are taken as one step; the success callback receives the status \<open>OK\<close>,
  recorded as a success without data.
\<close>

definition remove :: "path \<Rightarrow> options \<Rightarrow> 'a host_scheme \<Rightarrow> status outcome \<times> 'a host_scheme" where
  "remove this object h =
     (if \<not> localMode h then (Return ERROR_NOT_LOCAL_MODE, h)
      else
        (case Entity_exists this h of
           (ex, h1) \<Rightarrow>
             if \<not> ex then (Return ERROR_PATH_DOES_NOT_EXIST, h1)
             else
               (case isEmpty this h1 of
                  (Throw x, h2) \<Rightarrow> (Throw x, h2)
                | (Return none_inside, h2) \<Rightarrow>
                    if \<not> none_inside then (Return ERROR_DIRECTORY_IS_NOT_EMPTY, h2)
                    else if sync object
                    then
                      (let h3 = h2\<lparr>calls := calls h2 @ [RmdirSync this]\<rparr>
                       in case host_rmdir (fs h3) this of
                            Inl e \<Rightarrow> (Throw (HostError e), h3)
                          | Inr f \<Rightarrow> (Return OK, h3\<lparr>fs := f\<rparr>))
                    else
                      (let h3 = h2\<lparr>calls := calls h2 @ [Rmdir this]\<rparr>
                       in case host_rmdir (fs h3) this of
                            Inl e \<Rightarrow>
                              (Return WAIT_FOR_ASYNC_OPERATION,
                               h3\<lparr>events := events h3 @ [Failure e]\<rparr>)
                          | Inr f \<Rightarrow>
                              (Return WAIT_FOR_ASYNC_OPERATION,
                               if onSuccess object = None then h3\<lparr>fs := f\<rparr>
                               else h3\<lparr>fs := f,
                                       events := events h3 @ [Success (failure OK)]\<rparr>)))))"

section \<open>A sample state\<close>

text \<open>
  A host with nothing in flight, and the directory of the specification's scenario:
  \<^verbatim>\<open>root\<close> holds \<^verbatim>\<open>a.txt\<close>, \<^verbatim>\<open>b.png\<close> and \<^verbatim>\<open>sub/\<close>, and \<^verbatim>\<open>sub/\<close> holds \<^verbatim>\<open>c.txt\<close>.
  \<open>RegExp (ends_with_exec ''.txt'') False\<close> is the pattern \<^verbatim>\<open>/\.txt$/\<close>, and with \<open>True\<close> it
  is \<^verbatim>\<open>/\.txt$/g\<close>: the only match of the pattern is the suffix itself, so a search from
  index \<open>i\<close> finds it when the suffix begins at \<open>i\<close> or later, and the match ends where the
  name ends.
\<close>

definition idle :: "filesystem \<Rightarrow> search" where
  "idle f =
     \<lparr>fs = f, localMode = True, calls = [], pending = [], events = [], lastIndex = 0,
      total = 0, processed = 0, found = [], history = []\<rparr>"

definition demo_fs :: filesystem where
  "demo_fs =
     map_of
       [([''root''], DirN [''a.txt'', ''b.png'', ''sub'']),
        ([''root'', ''a.txt''], FileN),
        ([''root'', ''b.png''], FileN),
        ([''root'', ''sub''], DirN [''c.txt'']),
        ([''root'', ''sub'', ''c.txt''], FileN)]"

definition ends_with :: "string \<Rightarrow> string \<Rightarrow> bool" where
  "ends_with suffix name = (drop (length name - length suffix) name = suffix)"

definition ends_with_exec :: "string \<Rightarrow> nat \<Rightarrow> string \<Rightarrow> nat option" where
  "ends_with_exec suffix i name =
     (if ends_with suffix name \<and> i + length suffix \<le> length name then Some (length name)
      else None)"

definition demo_options :: options where
  "demo_options =
     \<lparr>sync = True, template = RegExp (ends_with_exec ''.txt'') False, onSuccess = None,
      searchLimit = Some 2\<rparr>"

lemma demo_fs_simps:
  "demo_fs [''root''] = Some (DirN [''a.txt'', ''b.png'', ''sub''])"
  "demo_fs [''root'', ''a.txt''] = Some FileN"
  "demo_fs [''root'', ''b.png''] = Some FileN"
  "demo_fs [''root'', ''sub''] = Some (DirN [''c.txt''])"
  "demo_fs [''root'', ''sub'', ''c.txt''] = Some FileN"
  "demo_fs [''missing''] = None"
  by (simp_all add: demo_fs_def)

section \<open>Notions for stating the properties\<close>


text \<open>
  The order of the checks as the specification words it: options object, trust gate,
  callback (asynchronous mode only), existence of the path.
\<close>

definition spec_order :: "bool \<Rightarrow> bool \<Rightarrow> options option \<Rightarrow> status option" where
  "spec_order permitted present object =
     (case object of
        None \<Rightarrow> Some ERROR_OPTIONS_IS_NOT_AVAILABLE
      | Some obj \<Rightarrow>
          if \<not> permitted then Some ERROR_NOT_LOCAL_MODE
          else if \<not> sync obj \<and> onSuccess obj = None then Some ERROR_CALLBACK_IS_NOT_AVAILABLE
          else if \<not> present then Some ERROR_PATH_DOES_NOT_EXIST
          else None)"

text \<open>The order in which \<^verbatim>\<open>getAll\<close> is written: the callback comes last.\<close>

definition getAll_order :: "bool \<Rightarrow> bool \<Rightarrow> options option \<Rightarrow> status option" where
  "getAll_order permitted present object =
     (case object of
        None \<Rightarrow> Some ERROR_OPTIONS_IS_NOT_AVAILABLE
      | Some obj \<Rightarrow>
          if \<not> permitted then Some ERROR_NOT_LOCAL_MODE
          else if \<not> present then Some ERROR_PATH_DOES_NOT_EXIST
          else if \<not> sync obj \<and> onSuccess obj = None then Some ERROR_CALLBACK_IS_NOT_AVAILABLE
          else None)"

text \<open>
  The order of \<^verbatim>\<open>getFiles\<close> and \<^verbatim>\<open>getDirectories\<close> on an options object: the callback
  first, then the checks of \<^verbatim>\<open>getAll\<close>.
\<close>

definition wrapper_order :: "bool \<Rightarrow> bool \<Rightarrow> options \<Rightarrow> status option" where
  "wrapper_order permitted present obj =
     (if \<not> sync obj \<and> onSuccess obj = None then Some ERROR_CALLBACK_IS_NOT_AVAILABLE
      else if \<not> permitted then Some ERROR_NOT_LOCAL_MODE
      else if \<not> present then Some ERROR_PATH_DOES_NOT_EXIST
      else None)"

text \<open>
  The entities behind the names that the host lists for a directory: a file for a name
  that is a file, a directory for a name that is a directory, nothing otherwise. This is
  what an unfiltered \<^verbatim>\<open>getAll\<close> returns.
\<close>

definition classify :: "filesystem \<Rightarrow> path \<Rightarrow> string \<Rightarrow> entity list" where
  "classify f p name =
     (if IO_isFile f (p @ [name]) then [File (p @ [name])]
      else if IO_isDirectory f (p @ [name]) then [Directory (p @ [name])]
      else [])"

definition children :: "filesystem \<Rightarrow> path \<Rightarrow> string list \<Rightarrow> entity list" where
  "children f p names = concat (map (classify f p) names)"

text \<open>
  Every recorded pair \<open>(total, processed)\<close> and the current pair are within bounds:
  \<open>processed \<le> total \<le> L\<close>, for a whole number \<open>L\<close>.
\<close>

definition counters_ok :: "int \<Rightarrow> search \<Rightarrow> bool" where
  "counters_ok L s =
     (list_all (\<lambda>(t, p). p \<le> t \<and> t \<le> L) (history s) \<and> processed s \<le> total s \<and> total s \<le> L)"

text \<open>
  What a walk leaves alone, and what it keeps; a blocking walk (\<open>quiet\<close>) also issues
  no request.
\<close>

definition walk_keeps :: "int \<Rightarrow> bool \<Rightarrow> search \<Rightarrow> search \<Rightarrow> bool" where
  "walk_keeps L quiet s s' =
     (fs s' = fs s \<and> localMode s' = localMode s \<and> events s' = events s
      \<and> processed s' = processed s \<and> total s \<le> total s'
      \<and> (\<exists>h. history s' = history s @ h)
      \<and> (counters_ok L s \<longrightarrow> counters_ok L s')
      \<and> (quiet \<longrightarrow> pending s' = pending s))"


text \<open>\<open>reaches fo n s s'\<close>: the host finishes \<open>n\<close> reads, one after the other, from \<open>s\<close> to \<open>s'\<close>.\<close>

inductive reaches :: "options \<Rightarrow> nat \<Rightarrow> search \<Rightarrow> search \<Rightarrow> bool" for fo :: options where
  start: "reaches fo 0 s s"
| later: "reaches fo n s s' \<Longrightarrow> step fo s' s'' \<Longrightarrow> reaches fo (Suc n) s s''"

text \<open>The requests that the two searches issue for a directory.\<close>

definition files_request :: "path \<Rightarrow> request" where
  "files_request d =
     \<lparr>req_path = d,
      req_object = no_options\<lparr>sync := False, onSuccess := Some FindFilesStep\<rparr>,
      req_onSuccess = FindFilesStep\<rparr>"

definition directories_request :: "path \<Rightarrow> request" where
  "directories_request d =
     \<lparr>req_path = d,
      req_object = no_options\<lparr>sync := False, onSuccess := Some (DirectoriesOf FindDirectoriesStep)\<rparr>,
      req_onSuccess = DirectoriesOf FindDirectoriesStep\<rparr>"





text \<open>
  The scenario in the asynchronous mode: the read of \<^verbatim>\<open>root\<close> finishes, then the read of
  \<^verbatim>\<open>sub\<close>.
\<close>

definition demo_async :: options where
  "demo_async =
     \<lparr>sync = False, template = RegExp (ends_with_exec ''.txt'') False, onSuccess = Some User,
      searchLimit = Some 2\<rparr>"

definition demo_start :: search where
  "demo_start = snd (findFiles [''root''] (Some demo_async) (idle demo_fs))"

definition demo_middle :: search where
  "demo_middle = complete demo_async (files_request [''root'']) (demo_start\<lparr>pending := []\<rparr>)"

definition demo_end :: search where
  "demo_end =
     complete demo_async (files_request [''root'', ''sub'']) (demo_middle\<lparr>pending := []\<rparr>)"










text \<open>
  The direct children of a directory, and those of them that a search for files or for
  directories is to return according to the specification.
\<close>

definition direct_children :: "filesystem \<Rightarrow> path \<Rightarrow> entity list" where
  "direct_children f p =
     (case host_readdir f p of Inl e \<Rightarrow> [] | Inr names \<Rightarrow> children f p names)"



text \<open>A directory with two text files and a subdirectory, and three templates.\<close>

definition pair_fs :: filesystem where
  "pair_fs =
     map_of
       [([''docs''], DirN [''a.txt'', ''b.txt'', ''old'']),
        ([''docs'', ''a.txt''], FileN),
        ([''docs'', ''b.txt''], FileN),
        ([''docs'', ''old''], DirN [''c.txt'']),
        ([''docs'', ''old'', ''c.txt''], FileN)]"


section \<open>Properties of the key-value wrapper\<close>




text \<open>
  C10. For every existing key \<open>k\<close>, \<^verbatim>\<open>rename(k, k, true)\<close> returns \<open>OK\<close> and deletes
  the entry: the value is written under the new key and then the old key, which is the
  same key, is removed. Afterwards \<^verbatim>\<open>exists(k)\<close> is false, the other entries are as
  before, and loading \<open>k\<close> reports that the key does not exist.
\<close>

theorem rename_same_key_deletes:
  assumes "WebStorage_exists ls k"
  shows "fst (WebStorage_rename k k True ls) = OK
       \<and> snd (WebStorage_rename k k True ls) = ls(k := None)
       \<and> \<not> WebStorage_exists (snd (WebStorage_rename k k True ls)) k
       \<and> loaded_status (WebStorage_load L k object (snd (WebStorage_rename k k True ls)))
           = ERROR_PATH_DOES_NOT_EXIST"
  using assms
  by (simp add: WebStorage_rename_def WebStorage_exists_def hasOwnProperty_def
      WebStorage_load_def setItem_def removeItem_def getItem_def)

theorem rename_same_key_deletes_witness:
  "WebStorage_exists [''save'' \<mapsto> ''data''] ''save''
   \<and> fst (WebStorage_rename ''save'' ''save'' True [''save'' \<mapsto> ''data'']) = OK
   \<and> \<not> WebStorage_exists
         (snd (WebStorage_rename ''save'' ''save'' True [''save'' \<mapsto> ''data''])) ''save''"
proof -
  have ex: "WebStorage_exists [''save'' \<mapsto> ''data''] ''save''"
    by (simp add: WebStorage_exists_def hasOwnProperty_def prototype_members_def)
  from rename_same_key_deletes [OF ex] ex show ?thesis by blast
qed

section \<open>Properties of the enumeration and of the guards\<close>

lemma findFiles_order:
  "spec_order (localMode s) (fs s this \<noteq> None) object = Some e \<Longrightarrow>
     fst (findFiles this object s) = Return (failure e)"
  by (auto simp: spec_order_def findFiles_def Entity_exists_def
      split: option.splits if_splits)

lemma findDirectories_order:
  "spec_order (localMode s) (fs s this \<noteq> None) object = Some e \<Longrightarrow>
     fst (findDirectories this object s) = Return (failure e)"
  by (auto simp: spec_order_def findDirectories_def Entity_exists_def
      split: option.splits if_splits)

lemma getAll_follows_order:
  "getAll_order (localMode h) (fs h this \<noteq> None) object = Some e \<Longrightarrow>
     fst (getAll this object h) = Return (failure e)"
  by (auto simp: getAll_order_def getAll_def Entity_exists_def
      split: option.splits if_splits)

lemma getFiles_order:
  "wrapper_order (localMode h) (fs h this \<noteq> None) obj = Some e \<Longrightarrow>
     fst (getFiles this (Some obj) h) = Return (failure e)"
  by (auto simp: wrapper_order_def getFiles_def getAll_def Entity_exists_def failure_def
      split: option.splits if_splits)

lemma getDirectories_order:
  "wrapper_order (localMode h) (fs h this \<noteq> None) obj = Some e \<Longrightarrow>
     fst (getDirectories this (Some obj) h) = Return (failure e)"
  by (auto simp: wrapper_order_def getDirectories_def getAll_def Entity_exists_def failure_def
      split: option.splits if_splits)

text \<open>
  C2 (amended). \<^verbatim>\<open>findFiles\<close> and \<^verbatim>\<open>findDirectories\<close> report the first failure in the
  order options object, trust gate, callback (asynchronous mode), existence.
  \<^verbatim>\<open>getAll\<close> reports the first failure in the order options object, trust gate,
  existence, callback (asynchronous mode). \<^verbatim>\<open>getFiles\<close> and \<^verbatim>\<open>getDirectories\<close>, given
  an options object, report a missing callback first and then follow \<^verbatim>\<open>getAll\<close>;
  \<^verbatim>\<open>getFiles\<close> without an options object reports the missing callback.
\<close>

theorem precondition_order:
  "(spec_order (localMode s) (fs s this \<noteq> None) object = Some e \<longrightarrow>
      fst (findFiles this object s) = Return (failure e)
      \<and> fst (findDirectories this object s) = Return (failure e))
   \<and> (getAll_order (localMode s) (fs s this \<noteq> None) object = Some e \<longrightarrow>
      fst (getAll this object s) = Return (failure e))
   \<and> (wrapper_order (localMode s) (fs s this \<noteq> None) obj = Some e \<longrightarrow>
      fst (getFiles this (Some obj) s) = Return (failure e)
      \<and> fst (getDirectories this (Some obj) s) = Return (failure e))
   \<and> fst (getFiles this None s) = Return (failure ERROR_CALLBACK_IS_NOT_AVAILABLE)"
proof (intro conjI impI)
  show "fst (getFiles this None s) = Return (failure ERROR_CALLBACK_IS_NOT_AVAILABLE)"
    by (simp add: getFiles_def no_options_def)
qed (simp_all add: findFiles_order findDirectories_order getAll_follows_order
      getFiles_order getDirectories_order)

theorem precondition_order_witness:
  "spec_order (localMode (idle demo_fs)) (fs (idle demo_fs) [''missing''] \<noteq> None) None
     = Some ERROR_OPTIONS_IS_NOT_AVAILABLE
   \<and> fst (findFiles [''missing''] None (idle demo_fs))
       = Return (failure ERROR_OPTIONS_IS_NOT_AVAILABLE)
   \<and> getAll_order (localMode (idle demo_fs)) (fs (idle demo_fs) [''missing''] \<noteq> None)
        (Some no_options) = Some ERROR_PATH_DOES_NOT_EXIST
   \<and> fst (getAll [''missing''] (Some no_options) (idle demo_fs))
       = Return (failure ERROR_PATH_DOES_NOT_EXIST)
   \<and> wrapper_order (localMode (idle demo_fs)) (fs (idle demo_fs) [''missing''] \<noteq> None)
        no_options = Some ERROR_CALLBACK_IS_NOT_AVAILABLE
   \<and> fst (getDirectories [''missing''] (Some no_options) (idle demo_fs))
       = Return (failure ERROR_CALLBACK_IS_NOT_AVAILABLE)"
proof -
  have a: "spec_order (localMode (idle demo_fs)) (fs (idle demo_fs) [''missing''] \<noteq> None) None
     = Some ERROR_OPTIONS_IS_NOT_AVAILABLE"
    by (simp add: spec_order_def)
  have b: "getAll_order (localMode (idle demo_fs)) (fs (idle demo_fs) [''missing''] \<noteq> None)
        (Some no_options) = Some ERROR_PATH_DOES_NOT_EXIST"
    by (simp add: getAll_order_def idle_def demo_fs_simps no_options_def)
  have c: "wrapper_order (localMode (idle demo_fs)) (fs (idle demo_fs) [''missing''] \<noteq> None)
        no_options = Some ERROR_CALLBACK_IS_NOT_AVAILABLE"
    by (simp add: wrapper_order_def no_options_def)
  from a b c
    precondition_order [of "idle demo_fs" "[''missing'']" None ERROR_OPTIONS_IS_NOT_AVAILABLE]
    precondition_order [of "idle demo_fs" "[''missing'']" "Some no_options"
      ERROR_PATH_DOES_NOT_EXIST]
    precondition_order [of "idle demo_fs" "[''missing'']" _ ERROR_CALLBACK_IS_NOT_AVAILABLE
      no_options]
  show ?thesis by blast
qed

text \<open>
  C2 as stated fails for \<^verbatim>\<open>getAll\<close>: in the asynchronous mode, without a callback and
  on a path that does not exist, the order of the specification reports the callback,
  and \<^verbatim>\<open>getAll\<close> reports the path.
\<close>

theorem getAll_order_counterexample:
  "spec_order True False (Some no_options) = Some ERROR_CALLBACK_IS_NOT_AVAILABLE
   \<and> localMode (idle demo_fs)
   \<and> fs (idle demo_fs) [''missing''] = None
   \<and> fst (getAll [''missing''] (Some no_options) (idle demo_fs))
       = Return (failure ERROR_PATH_DOES_NOT_EXIST)"
  by (simp add: spec_order_def no_options_def idle_def demo_fs_simps getAll_def
      Entity_exists_def)

lemma no_step_when_idle: "pending s = [] \<Longrightarrow> \<not> step fo s s'"
  by (auto elim: step.cases)

text \<open>
  C7 (amended). With the trust gate open, an asynchronous \<^verbatim>\<open>getAll\<close> without a success
  callback returns at once: \<open>ERROR_CALLBACK_IS_NOT_AVAILABLE\<close> when the path exists,
  \<open>ERROR_PATH_DOES_NOT_EXIST\<close> when it does not. The only host call is the existence
  check; no read is issued, the file system, the requests in flight and the callbacks
  invoked are as before, and with nothing else in flight no callback ever runs.
\<close>

theorem getAll_async_without_callback:
  assumes "localMode s" and "\<not> sync obj" and "onSuccess obj = None"
  shows "fst (getAll this (Some obj) s)
           = Return (failure (if fs s this \<noteq> None then ERROR_CALLBACK_IS_NOT_AVAILABLE
                              else ERROR_PATH_DOES_NOT_EXIST))
       \<and> snd (getAll this (Some obj) s) = s\<lparr>calls := calls s @ [ExistsSync this]\<rparr>
       \<and> (pending s = [] \<longrightarrow> \<not> step fo (snd (getAll this (Some obj) s)) s')"
proof -
  have eq: "getAll this (Some obj) s
     = (Return (failure (if fs s this \<noteq> None then ERROR_CALLBACK_IS_NOT_AVAILABLE
                              else ERROR_PATH_DOES_NOT_EXIST)),
        s\<lparr>calls := calls s @ [ExistsSync this]\<rparr>)"
    using assms by (simp add: getAll_def Entity_exists_def)
  show ?thesis
    unfolding eq by (simp add: no_step_when_idle)
qed

theorem getAll_async_without_callback_witness:
  "localMode (idle demo_fs) \<and> \<not> sync no_options \<and> onSuccess no_options = None
   \<and> fst (getAll [''root''] (Some no_options) (idle demo_fs))
       = Return (failure ERROR_CALLBACK_IS_NOT_AVAILABLE)
   \<and> snd (getAll [''root''] (Some no_options) (idle demo_fs))
       = (idle demo_fs)\<lparr>calls := [ExistsSync [''root'']]\<rparr>"
proof -
  have h: "localMode (idle demo_fs)" "\<not> sync no_options" "onSuccess no_options = None"
    by (simp_all add: idle_def no_options_def)
  have c: "calls (idle demo_fs) = []" "fs (idle demo_fs) [''root''] \<noteq> None"
    by (simp_all add: idle_def demo_fs_simps)
  from getAll_async_without_callback [OF h, of "[''root'']"] h c show ?thesis
    by simp
qed

text \<open>
  C7 as stated fails: on a path that does not exist the status is
  \<open>ERROR_PATH_DOES_NOT_EXIST\<close>, and on either path the host's existence check is called.
\<close>

theorem getAll_async_without_callback_counterexample:
  "localMode (idle demo_fs) \<and> \<not> sync no_options \<and> onSuccess no_options = None
   \<and> fst (getAll [''missing''] (Some no_options) (idle demo_fs))
       = Return \<lparr>data = None, status = ERROR_PATH_DOES_NOT_EXIST\<rparr>
   \<and> calls (snd (getAll [''missing''] (Some no_options) (idle demo_fs)))
       = [ExistsSync [''missing'']]
   \<and> calls (snd (getAll [''root''] (Some no_options) (idle demo_fs)))
       = [ExistsSync [''root'']]"
  by (simp add: no_options_def idle_def demo_fs_simps getAll_def Entity_exists_def failure_def)

text \<open>
  C8. \<^verbatim>\<open>createAsync\<close> on a directory that exists: the promise resolves with
  \<open>ERROR_DIRECTORY_ALREADY_EXISTS\<close>, and \<^verbatim>\<open>fs.mkdir\<close> is called all the same.
\<close>

theorem createAsync_existing_calls_mkdir:
  "createAsync [''root''] (idle demo_fs)
     = (Resolved ERROR_DIRECTORY_ALREADY_EXISTS,
        (idle demo_fs)\<lparr>calls := [ExistsSync [''root''], Mkdir [''root'']]\<rparr>)"
  by (simp add: createAsync_def idle_def Entity_exists_def settle_def settled_def host_mkdir_def
      demo_fs_simps)

section \<open>What the operations leave alone\<close>

declare findFiles_processDirectory.simps [simp del]

declare findDirectories_processDirectory.simps [simp del]

lemma getAll_fields [simp]:
  "fs (snd (getAll p ob h)) = fs h"
  "localMode (snd (getAll p ob h)) = localMode h"
  "events (snd (getAll p ob h)) = events h"
  by (auto simp: getAll_def Entity_exists_def Let_def split: option.splits sum.splits prod.splits)

lemma getAll_search_fields [simp]:
  "processed (snd (getAll p ob (s::search))) = processed s"
  "found (snd (getAll p ob (s::search))) = found s"
  "history (snd (getAll p ob (s::search))) = history s"
  by (auto simp: getAll_def Entity_exists_def Let_def split: option.splits sum.splits prod.splits)

lemma getDirectories_None [simp]: "getDirectories p None h = (Throw TypeError, h)"
  by (simp add: getDirectories_def)

lemma getDirectories_eq_getAll_state:
  "snd (getDirectories p (Some ob) h)
     = (if sync ob then snd (getAll p (Some ob) h)
        else case onSuccess ob of None \<Rightarrow> h
             | Some cb \<Rightarrow> snd (getAll p (Some (ob\<lparr>onSuccess := Some (DirectoriesOf cb)\<rparr>)) h))"
  by (auto simp: getDirectories_def split: prod.splits outcome.splits option.splits)

lemma getDirectories_fields [simp]:
  "fs (snd (getDirectories p ob h)) = fs h"
  "localMode (snd (getDirectories p ob h)) = localMode h"
  "events (snd (getDirectories p ob h)) = events h"
  by (cases ob; simp add: getDirectories_eq_getAll_state split: option.splits)+

lemma getDirectories_search_fields [simp]:
  "processed (snd (getDirectories p ob (s::search))) = processed s"
  "found (snd (getDirectories p ob (s::search))) = found s"
  "history (snd (getDirectories p ob (s::search))) = history s"
  by (cases ob; simp add: getDirectories_eq_getAll_state split: option.splits)+

lemma push_fields [simp]:
  "fs (push ob e s) = fs s"
  "localMode (push ob e s) = localMode s"
  "events (push ob e s) = events s"
  "calls (push ob e s) = calls s"
  "pending (push ob e s) = pending s"
  "processed (push ob e s) = processed s"
  "history (push ob e s) = history s"
  by (simp_all add: push_def split: prod.splits)

lemma incr_total_fields [simp]:
  "fs (incr_total s) = fs s"
  "localMode (incr_total s) = localMode s"
  "events (incr_total s) = events s"
  "calls (incr_total s) = calls s"
  "pending (incr_total s) = pending s"
  "processed (incr_total s) = processed s"
  "found (incr_total s) = found s"
  by (simp_all add: incr_total_def)

lemma incr_processed_fields [simp]:
  "fs (incr_processed s) = fs s"
  "localMode (incr_processed s) = localMode s"
  "events (incr_processed s) = events s"
  "calls (incr_processed s) = calls s"
  "pending (incr_processed s) = pending s"
  "total (incr_processed s) = total s"
  "processed (incr_processed s) = processed s + 1"
  "found (incr_processed s) = found s"
  by (simp_all add: incr_processed_def)

section \<open>The direct children of a directory\<close>

lemma wrap_foldl:
  "foldl (\<lambda>acc name.
            let fullPath = p @ [name]
            in if IO_isFile f fullPath then acc @ [File fullPath]
               else if IO_isDirectory f fullPath then acc @ [Directory fullPath]
               else acc) acc names
   = acc @ children f p names"
  by (induction names arbitrary: acc) (simp_all add: children_def classify_def Let_def)

lemma getAll_processData_unfiltered:
  "template ob = Undefined \<or> template ob = Other b \<Longrightarrow>
     getAll_processData f p ob names li
       = (\<lparr>data = Some (children f p names), status = OK\<rparr>, li)"
  by (auto simp: getAll_processData_def wrap_foldl)

lemma readdir_exists: "host_readdir f p = Inr names \<Longrightarrow> f p \<noteq> None"
  by (auto simp: host_readdir_def split: option.splits)

lemma getAll_sync_read:
  assumes "localMode h" and "sync ob"
    and "template ob = Undefined \<or> template ob = Other b"
    and "host_readdir (fs h) p = Inr names"
  shows "getAll p (Some ob) h
           = (Return \<lparr>data = Some (children (fs h) p names), status = OK\<rparr>,
              h\<lparr>calls := calls h @ [ExistsSync p, ReaddirSync p]\<rparr>)"
proof -
  from assms(4) have "fs h p \<noteq> None"
    by (rule readdir_exists)
  with assms show ?thesis
    by (simp add: getAll_def Entity_exists_def getAll_processData_unfiltered)
qed

text \<open>The blocking \<^verbatim>\<open>create\<close> returns before the host call.\<close>

lemma create_guard:
  "localMode h \<Longrightarrow> fs h this \<noteq> None \<Longrightarrow>
     create this h = (Return ERROR_DIRECTORY_ALREADY_EXISTS, h\<lparr>calls := calls h @ [ExistsSync this]\<rparr>)"
  by (simp add: create_def Entity_exists_def)

text \<open>
  \<^verbatim>\<open>remove\<close> on a directory that holds a file or a directory: the status is
  \<open>ERROR_DIRECTORY_IS_NOT_EMPTY\<close>, the host is asked whether the path exists and what it
  lists, and nothing is removed.
\<close>

lemma remove_guard:
  assumes "localMode h" and "fs h this = Some (DirN names)"
    and "children (fs h) this names \<noteq> []"
  shows "remove this object h
           = (Return ERROR_DIRECTORY_IS_NOT_EMPTY,
              h\<lparr>calls := calls h @ [ExistsSync this, ExistsSync this, ReaddirSync this]\<rparr>)"
proof -
  let ?h1 = "h\<lparr>calls := calls h @ [ExistsSync this]\<rparr>"
  have "host_readdir (fs ?h1) this = Inr names"
    using assms(2) by (simp add: host_readdir_def)
  from getAll_sync_read [OF _ _ _ this, of "no_options\<lparr>sync := True\<rparr>"] assms
  show ?thesis
    by (simp add: remove_def Entity_exists_def isEmpty_def no_options_def)
qed

lemma children_kind:
  "e \<in> set (children f p names) \<Longrightarrow> isFile f e \<or> isDirectory f e"
  by (auto simp: children_def classify_def isFile_def isDirectory_def split: if_splits)

lemma children_names: "filter (isFile f) (children f p names)
    = map (\<lambda>n. File (p @ [n])) (filter (\<lambda>n. IO_isFile f (p @ [n])) names)"
  by (induction names)
     (auto simp: children_def classify_def isFile_def isDirectory_def IO_isFile_def
       IO_isDirectory_def split: option.splits fsnode.splits)

section \<open>Searching with the limit 1\<close>











section \<open>The budget counters\<close>

lemma counters_ok_frame:
  "history s' = history s \<Longrightarrow> total s' = total s \<Longrightarrow> processed s' = processed s \<Longrightarrow>
     counters_ok L s' = counters_ok L s"
  by (simp add: counters_ok_def)

lemma counters_ok_push [simp]: "counters_ok L (push ob e s) = counters_ok L s"
  by (rule counters_ok_frame) simp_all

lemma counters_ok_getAll [simp]: "counters_ok L (snd (getAll p ob s)) = counters_ok L s"
  by (rule counters_ok_frame) simp_all

lemma counters_ok_getDirectories [simp]:
  "counters_ok L (snd (getDirectories p ob s)) = counters_ok L s"
  by (rule counters_ok_frame) simp_all



lemma walk_keeps_refl [simp]: "walk_keeps L q s s"
  by (simp add: walk_keeps_def)



lemma getAll_sync_pending:
  "sync ob \<Longrightarrow> pending (snd (getAll p (Some ob) h)) = pending h"
  by (auto simp: getAll_def Entity_exists_def Let_def split: sum.splits prod.splits)

lemma walk_keeps_getAll [simp]:
  "walk_keeps L False s (snd (getAll p ob s))"
  "walk_keeps L q s (snd (getAll p (Some (no_options\<lparr>sync := True\<rparr>)) s))"
  by (simp_all add: walk_keeps_def getAll_sync_pending)

lemma walk_keeps_getDirectories [simp]:
  "walk_keeps L False s (snd (getDirectories p ob s))"
  "walk_keeps L q s (snd (getDirectories p (Some (no_options\<lparr>sync := True\<rparr>)) s))"
  by (simp_all add: walk_keeps_def getDirectories_eq_getAll_state getAll_sync_pending)




section \<open>Runs of an asynchronous search\<close>

lemma getAll_async_issue:
  "localMode h \<Longrightarrow> \<not> sync ob \<Longrightarrow> onSuccess ob = Some cb \<Longrightarrow> fs h p \<noteq> None \<Longrightarrow>
     getAll p (Some ob) h
       = (Return (failure WAIT_FOR_ASYNC_OPERATION),
          h\<lparr>calls := calls h @ [ExistsSync p, Readdir p],
            pending := pending h @ [\<lparr>req_path = p, req_object = ob, req_onSuccess = cb\<rparr>]\<rparr>)"
  by (simp add: getAll_def Entity_exists_def)

lemma findFiles_processDirectory_async:
  "\<not> sync ob \<Longrightarrow> localMode s \<Longrightarrow> fs s d \<noteq> None \<Longrightarrow>
     findFiles_processDirectory ob d s
       = (None, s\<lparr>calls := calls s @ [ExistsSync d, Readdir d],
                  pending := pending s @ [files_request d]\<rparr>)"
  by (simp add: findFiles_processDirectory.simps getAll_async_issue no_options_def
      files_request_def)





section \<open>Steps keep the invariant\<close>







section \<open>Where a search starts\<close>

lemma findFiles_async_start:
  assumes "localMode s" and "\<not> sync fo" and "onSuccess fo \<noteq> None" and "fs s this \<noteq> None"
  shows "findFiles this (Some fo) s
           = (Return (failure WAIT_FOR_ASYNC_OPERATION),
              (start_search s)\<lparr>calls := calls s @ [ExistsSync this, ExistsSync this, Readdir this],
                                pending := pending s @ [files_request this]\<rparr>)"
  using assms
  by (auto simp: findFiles_def Entity_exists_def start_search_def
      findFiles_processDirectory_async)














section \<open>Sample runs\<close>

lemma idle_fields [simp]:
  "fs (idle f) = f" "localMode (idle f)" "calls (idle f) = []" "pending (idle f) = []"
  "events (idle f) = []" "lastIndex (idle f) = 0"
  by (simp_all add: idle_def)

lemma demo_start_eq:
  "demo_start
     = (start_search (idle demo_fs))
         \<lparr>calls := [ExistsSync [''root''], ExistsSync [''root''], Readdir [''root'']],
          pending := [files_request [''root'']]\<rparr>"
  unfolding demo_start_def
  by (subst findFiles_async_start) (simp_all add: demo_async_def demo_fs_simps)

lemma demo_middle_eq:
  "demo_middle
     = \<lparr>fs = demo_fs, localMode = True,
        calls = [ExistsSync [''root''], ExistsSync [''root''], Readdir [''root''],
                 ExistsSync [''root'', ''sub''], Readdir [''root'', ''sub'']],
        pending = [files_request [''root'', ''sub'']], events = [], lastIndex = 0,
        total = 2, processed = 1, found = [File [''root'', ''a.txt'']],
        history = [(1, 0), (1, 1), (2, 1)]\<rparr>"
  unfolding demo_middle_def demo_start_eq
  by (simp add: complete_def files_request_def host_readdir_def demo_fs_simps idle_def
      start_search_def getAll_processData_def no_options_def findFiles_onSuccess_def
      entities_def incr_processed_def incr_total_def isFile_def isDirectory_def IO_isFile_def
      IO_isDirectory_def limit_def demo_async_def push_def find_matches_def getFullName_def
      RegExp_test_def ends_with_exec_def ends_with_def findFiles_processDirectory.simps getAll_def Entity_exists_def Let_def)

lemma demo_end_eq:
  "demo_end
     = \<lparr>fs = demo_fs, localMode = True,
        calls = [ExistsSync [''root''], ExistsSync [''root''], Readdir [''root''],
                 ExistsSync [''root'', ''sub''], Readdir [''root'', ''sub'']],
        pending = [],
        events = [Success \<lparr>data = Some [File [''root'', ''a.txt''],
                                           File [''root'', ''sub'', ''c.txt'']],
                            status = OK\<rparr>],
        lastIndex = 0, total = 2, processed = 2,
        found = [File [''root'', ''a.txt''], File [''root'', ''sub'', ''c.txt'']],
        history = [(1, 0), (1, 1), (2, 1), (2, 2)]\<rparr>"
  unfolding demo_end_def demo_middle_eq
  by (simp add: complete_def files_request_def host_readdir_def demo_fs_simps
      getAll_processData_def no_options_def findFiles_onSuccess_def
      entities_def incr_processed_def incr_total_def isFile_def isDirectory_def IO_isFile_def
      IO_isDirectory_def limit_def demo_async_def push_def find_matches_def getFullName_def
      RegExp_test_def ends_with_exec_def ends_with_def Let_def)

lemma demo_run: "reaches demo_async 2 demo_start demo_end"
proof -
  have "pending demo_start = [] @ files_request [''root''] # []"
    by (simp add: demo_start_eq)
  from step.intros [OF this, of demo_async]
  have one: "step demo_async demo_start demo_middle"
    by (simp add: demo_middle_def)
  have "pending demo_middle = [] @ files_request [''root'', ''sub''] # []"
    by (simp add: demo_middle_eq)
  from step.intros [OF this, of demo_async]
  have two: "step demo_async demo_middle demo_end"
    by (simp add: demo_end_def)
  have "reaches demo_async (Suc (Suc 0)) demo_start demo_end"
    by (rule reaches.later [OF reaches.later [OF reaches.start one] two])
  then show ?thesis
    by (simp add: numeral_2_eq_2)
qed








section \<open>The limit 1 in the asynchronous mode, and the scenario\<close>

lemma files_request_simps [simp]:
  "req_path (files_request d) = d" "req_onSuccess (files_request d) = FindFilesStep"
  "template (req_object (files_request d)) = Undefined"
  by (simp_all add: files_request_def no_options_def)

lemma directories_request_simps [simp]:
  "req_path (directories_request d) = d"
  "req_onSuccess (directories_request d) = DirectoriesOf FindDirectoriesStep"
  "template (req_object (directories_request d)) = Undefined"
  by (simp_all add: directories_request_def no_options_def)





lemma pair_children:
  "filter (isFile pair_fs) (direct_children pair_fs [''docs''])
     = [File [''docs'', ''a.txt''], File [''docs'', ''b.txt'']]"
  by (simp add: direct_children_def host_readdir_def pair_fs_def children_def classify_def
      IO_isFile_def IO_isDirectory_def isFile_def isDirectory_def)


text \<open>
  C4. The root holds \<^verbatim>\<open>a.txt\<close>, \<^verbatim>\<open>b.png\<close> and \<^verbatim>\<open>sub/\<close> with \<^verbatim>\<open>c.txt\<close>. \<^verbatim>\<open>findFiles\<close> with
  the template \<^verbatim>\<open>/\.txt$/\<close> and \<^verbatim>\<open>searchLimit\<close> 2 returns status \<open>OK\<close> and the files
  \<^verbatim>\<open>a.txt\<close> and \<^verbatim>\<open>c.txt\<close>, after reading the root and \<^verbatim>\<open>sub/\<close>; in the asynchronous mode the
  two reads finish and the success callback receives the same two files.
\<close>

theorem findFiles_scenario:
  "fst (findFiles [''root''] (Some demo_options) (idle demo_fs))
     = Return \<lparr>data = Some [File [''root'', ''a.txt''], File [''root'', ''sub'', ''c.txt'']],
               status = OK\<rparr>
   \<and> set (map getFullName [File [''root'', ''a.txt''], File [''root'', ''sub'', ''c.txt'']])
       = {''a.txt'', ''c.txt''}
   \<and> calls (snd (findFiles [''root''] (Some demo_options) (idle demo_fs)))
       = [ExistsSync [''root''], ExistsSync [''root''], ReaddirSync [''root''],
          ExistsSync [''root'', ''sub''], ReaddirSync [''root'', ''sub'']]
   \<and> reaches demo_async 2 (snd (findFiles [''root''] (Some demo_async) (idle demo_fs))) demo_end
   \<and> pending demo_end = []
   \<and> events demo_end
       = [Success \<lparr>data = Some [File [''root'', ''a.txt''], File [''root'', ''sub'', ''c.txt'']],
                   status = OK\<rparr>]"
proof -
  have blocking: "findFiles [''root''] (Some demo_options) (idle demo_fs)
     = (Return \<lparr>data = Some [File [''root'', ''a.txt''], File [''root'', ''sub'', ''c.txt'']],
                status = OK\<rparr>,
        \<lparr>fs = demo_fs, localMode = True,
         calls = [ExistsSync [''root''], ExistsSync [''root''], ReaddirSync [''root''],
                  ExistsSync [''root'', ''sub''], ReaddirSync [''root'', ''sub'']],
         pending = [], events = [], lastIndex = 0, total = 2, processed = 0,
         found = [File [''root'', ''a.txt''], File [''root'', ''sub'', ''c.txt'']],
         history = [(1, 0), (2, 0)]\<rparr>)"
    by (simp add: findFiles_def demo_options_def idle_def Entity_exists_def start_search_def
        getAll_def no_options_def host_readdir_def demo_fs_simps getAll_processData_def
        entities_def isFile_def isDirectory_def IO_isFile_def IO_isDirectory_def limit_def
        push_def find_matches_def getFullName_def RegExp_test_def ends_with_exec_def
        ends_with_def incr_total_def
        findFiles_processDirectory.simps Let_def)
  have names: "set (map getFullName [File [''root'', ''a.txt''], File [''root'', ''sub'', ''c.txt'']])
       = {''a.txt'', ''c.txt''}"
    by (simp add: getFullName_def)
  have run: "reaches demo_async 2 (snd (findFiles [''root''] (Some demo_async) (idle demo_fs)))
               demo_end"
    using demo_run by (simp add: demo_start_def)
  have fin: "pending demo_end = []"
    "events demo_end
       = [Success \<lparr>data = Some [File [''root'', ''a.txt''], File [''root'', ''sub'', ''c.txt'']],
                   status = OK\<rparr>]"
    by (simp_all add: demo_end_eq)
  from names run fin show ?thesis
    unfolding blocking by simp
qed

section \<open>Templates that are neither a pattern nor a string\<close>









end
